theory Spec2Isabelle
  imports Complex_Main "HOL-Library.Word"
begin

unbundle bit_operations_syntax

section \<open>Numbers\<close>

text \<open>
  The page computes with JavaScript Numbers. The development reads them as real numbers:
  \<open>+\<close>, \<open>-\<close> and \<open>*\<close> are exact, the literals
  \<open>0.95\<close>, \<open>0.01\<close> and \<open>0.001\<close> denote the decimal fractions they are written as. Every statement below about angles and
  velocities is a statement of this exact arithmetic; binary64 rounding is not modelled.
  Image dimensions are integers (\<open>unsigned long\<close> in the DOM), kept as \<open>int\<close>; the one
  bitwise operator of the source works on their 32-bit two's complement (ToInt32).
\<close>

type_synonym number = real

section \<open>The platform: WebGL objects, the calls made on them, what the context answers\<close>

type_synonym handle = nat

datatype shader_type = VERTEX_SHADER | FRAGMENT_SHADER

text \<open>The two GLSL texts of \<open>main\<close> (lines 15-51), by name: the page never inspects them.\<close>

datatype shader_source = VsSource | FsSource

datatype pname = TEXTURE_WRAP_S | TEXTURE_WRAP_T | TEXTURE_MIN_FILTER

datatype param = REPEAT | CLAMP_TO_EDGE | NEAREST_MIPMAP_LINEAR | LINEAR

datatype error = TypeError

text \<open>
  What a WebGL entry point does with \<open>null\<close> for a shader or program argument. Under the
  current interface definition the argument is non-nullable and the call throws a
  TypeError; the first editions of WebGL 1.0 recorded INVALID_VALUE and returned.
\<close>

datatype null_policy = ThrowsTypeError | RecordsInvalidValue

record html_image =
  src :: string
  width :: int
  height :: int

datatype tex_source = Pixels int int "nat list" | ImageSource html_image

record tex_obj =
  level0 :: "tex_source option"
  wrap_s :: param
  wrap_t :: param
  min_filter :: param
  mipmapped :: bool

record prog_obj =
  attached :: "handle list"
  linked :: bool

record program_info =
  program :: "handle option"
  vertexPosition :: int
  vertexNormal :: int
  textureCoord :: int
  projectionMatrix :: "handle option"
  modelViewMatrix :: "handle option"
  normalMatrix :: "handle option"
  uSampler :: "handle option"

text \<open>
  The state-changing calls the page makes on its surroundings, in the order made.
  \<open>InitBuffers\<close> and \<open>DrawScene\<close> are the calls into the two imported modules.
\<close>

datatype call =
    Alert string
  | CreateShader shader_type
  | ShaderSource handle shader_source
  | CompileShader handle
  | DeleteShader handle
  | CreateProgram
  | AttachShader handle "handle option"
  | LinkProgram handle
  | CreateTexture
  | BindTexture handle
  | TexImage2D tex_source
  | GenerateMipmap
  | TexParameteri pname param
  | PixelStorei
  | Clear
  | InitBuffers
  | DrawScene program_info handle number number
  | AddEventListener string
  | RequestAnimationFrame
  | SetImageSrc string

record gl_state =
  calls :: "call list"
  fresh :: handle
  shaders :: "handle set"
  programs :: "handle \<rightharpoonup> prog_obj"
  textures :: "handle \<rightharpoonup> tex_obj"
  texture_2d :: "handle option"

text \<open>
  What the surroundings answer: whether a WebGL context exists, the compile status per
  stage, whether two compiled stages link, the locations of the linked program's active
  attributes (\<open>-1\<close> when a name is not active) and uniforms (\<open>null\<close> likewise), the
  treatment of \<open>null\<close> objects, and the text of the info logs.
\<close>

record env =
  webgl :: bool
  compile_status :: "shader_type \<Rightarrow> shader_source \<Rightarrow> bool"
  link_status :: bool
  attrib_location :: "string \<Rightarrow> int"
  uniform_location :: "string \<Rightarrow> handle option"
  null_object :: null_policy
  info_log :: string

definition log :: "call \<Rightarrow> gl_state \<Rightarrow> gl_state" where
  "log c g = g\<lparr>calls := calls g @ [c]\<rparr>"

definition alert :: "string \<Rightarrow> gl_state \<Rightarrow> gl_state" where
  "alert msg g = log (Alert msg) g"

definition createShader :: "shader_type \<Rightarrow> gl_state \<Rightarrow> handle \<times> gl_state" where
  "createShader ty g =
     (fresh g, log (CreateShader ty)
        (g\<lparr>fresh := Suc (fresh g), shaders := insert (fresh g) (shaders g)\<rparr>))"

definition shaderSource :: "handle \<Rightarrow> shader_source \<Rightarrow> gl_state \<Rightarrow> gl_state" where
  "shaderSource shader source g = log (ShaderSource shader source) g"

definition compileShader :: "handle \<Rightarrow> gl_state \<Rightarrow> gl_state" where
  "compileShader shader g = log (CompileShader shader) g"

definition deleteShader :: "handle \<Rightarrow> gl_state \<Rightarrow> gl_state" where
  "deleteShader shader g = log (DeleteShader shader) (g\<lparr>shaders := shaders g - {shader}\<rparr>)"

definition createProgram :: "gl_state \<Rightarrow> handle \<times> gl_state" where
  "createProgram g =
     (fresh g, log CreateProgram
        (g\<lparr>fresh := Suc (fresh g),
           programs := (programs g)(fresh g \<mapsto> \<lparr>attached = [], linked = False\<rparr>)\<rparr>))"

definition attachShader ::
    "env \<Rightarrow> handle \<Rightarrow> handle option \<Rightarrow> gl_state \<Rightarrow> (error + unit) \<times> gl_state" where
  "attachShader e prog shader g =
     (case shader of
        None \<Rightarrow>
          (case null_object e of
             ThrowsTypeError \<Rightarrow> (Inl TypeError, g)
           | RecordsInvalidValue \<Rightarrow> (Inr (), log (AttachShader prog None) g))
      | Some sh \<Rightarrow>
          (Inr (),
           log (AttachShader prog (Some sh))
             (case programs g prog of
                None \<Rightarrow> g
              | Some obj \<Rightarrow>
                  g\<lparr>programs :=
                      (programs g)(prog \<mapsto> obj\<lparr>attached := attached obj @ [sh]\<rparr>)\<rparr>)))"

text \<open>
  Linking succeeds when a vertex and a fragment stage are attached (the page attaches
  only stages that compiled) and the linker accepts them.
\<close>

definition linkProgram :: "env \<Rightarrow> handle \<Rightarrow> gl_state \<Rightarrow> gl_state" where
  "linkProgram e prog g =
     log (LinkProgram prog)
       (case programs g prog of
          None \<Rightarrow> g
        | Some obj \<Rightarrow>
            g\<lparr>programs :=
                (programs g)(prog \<mapsto>
                  obj\<lparr>linked := (length (attached obj) = 2 \<and> link_status e)\<rparr>)\<rparr>)"

definition getProgramParameter :: "handle \<Rightarrow> gl_state \<Rightarrow> bool" where
  "getProgramParameter prog g = (case programs g prog of None \<Rightarrow> False | Some obj \<Rightarrow> linked obj)"

definition getAttribLocation ::
    "env \<Rightarrow> gl_state \<Rightarrow> handle option \<Rightarrow> string \<Rightarrow> error + int" where
  "getAttribLocation e g prog name =
     (case prog of
        None \<Rightarrow>
          (case null_object e of
             ThrowsTypeError \<Rightarrow> Inl TypeError
           | RecordsInvalidValue \<Rightarrow> Inr (- 1))
      | Some p \<Rightarrow> Inr (if getProgramParameter p g then attrib_location e name else - 1))"

definition getUniformLocation ::
    "env \<Rightarrow> gl_state \<Rightarrow> handle option \<Rightarrow> string \<Rightarrow> error + handle option" where
  "getUniformLocation e g prog name =
     (case prog of
        None \<Rightarrow>
          (case null_object e of
             ThrowsTypeError \<Rightarrow> Inl TypeError
           | RecordsInvalidValue \<Rightarrow> Inr None)
      | Some p \<Rightarrow> Inr (if getProgramParameter p g then uniform_location e name else None))"

text \<open>
  Texture objects. A new texture has no image, wraps by repetition on both axes and has
  the minifying filter NEAREST_MIPMAP_LINEAR: the defaults of the GL.
\<close>

definition createTexture :: "gl_state \<Rightarrow> handle \<times> gl_state" where
  "createTexture g =
     (fresh g, log CreateTexture
        (g\<lparr>fresh := Suc (fresh g),
           textures := (textures g)(fresh g \<mapsto>
             \<lparr>level0 = None, wrap_s = REPEAT, wrap_t = REPEAT,
              min_filter = NEAREST_MIPMAP_LINEAR, mipmapped = False\<rparr>)\<rparr>))"

definition bindTexture :: "handle \<Rightarrow> gl_state \<Rightarrow> gl_state" where
  "bindTexture t g = log (BindTexture t) (g\<lparr>texture_2d := Some t\<rparr>)"

definition on_bound :: "(tex_obj \<Rightarrow> tex_obj) \<Rightarrow> gl_state \<Rightarrow> gl_state" where
  "on_bound f g =
     (case texture_2d g of
        None \<Rightarrow> g
      | Some t \<Rightarrow>
          (case textures g t of
             None \<Rightarrow> g
           | Some obj \<Rightarrow> g\<lparr>textures := (textures g)(t \<mapsto> f obj)\<rparr>))"

definition texImage2D :: "tex_source \<Rightarrow> gl_state \<Rightarrow> gl_state" where
  "texImage2D source g =
     log (TexImage2D source) (on_bound (\<lambda>obj. obj\<lparr>level0 := Some source, mipmapped := False\<rparr>) g)"

definition generateMipmap :: "gl_state \<Rightarrow> gl_state" where
  "generateMipmap g = log GenerateMipmap (on_bound (\<lambda>obj. obj\<lparr>mipmapped := True\<rparr>) g)"

definition texParameteri :: "pname \<Rightarrow> param \<Rightarrow> gl_state \<Rightarrow> gl_state" where
  "texParameteri pn v g =
     log (TexParameteri pn v)
       (on_bound (\<lambda>obj. case pn of
                     TEXTURE_WRAP_S \<Rightarrow> obj\<lparr>wrap_s := v\<rparr>
                   | TEXTURE_WRAP_T \<Rightarrow> obj\<lparr>wrap_t := v\<rparr>
                   | TEXTURE_MIN_FILTER \<Rightarrow> obj\<lparr>min_filter := v\<rparr>) g)"

definition pixelStorei :: "gl_state \<Rightarrow> gl_state" where
  "pixelStorei g = log PixelStorei g"

definition clear :: "gl_state \<Rightarrow> gl_state" where
  "clear g = log Clear g"

text \<open>
  Modelled from the spec: \<open>init-buffers.js\<close> and \<open>draw-scene.js\<close> are imported by the page and
  are not among its sources. Section 4.2 has \<open>initBuffers\<close> upload the cube's four arrays
  once; section 4.5, step 5, has \<open>drawScene\<close> bind pipeline, buffers and texture and issue
  the one indexed draw of the frame. Each is recorded as one call with its arguments;
  neither creates, deletes or writes a shader, program or texture object.
\<close>

definition initBuffers :: "gl_state \<Rightarrow> gl_state" where
  "initBuffers g = log InitBuffers g"

definition drawScene ::
    "program_info \<Rightarrow> handle \<Rightarrow> number \<Rightarrow> number \<Rightarrow> gl_state \<Rightarrow> gl_state" where
  "drawScene pinfo tex rx ry g = log (DrawScene pinfo tex rx ry) (g\<lparr>texture_2d := Some tex\<rparr>)"

section \<open>The page\<close>

text \<open>
  The module-level variables of line 4, \<open>then\<close> of line 91 (here \<open>then_t\<close>), and what the page has
  registered with the browser: the four canvas listeners, the pending animation-frame
  callback (\<open>render\<close> with the constants it closes over) and the image whose \<open>onload\<close> is
  pending (with the texture it closes over).
\<close>

record mouse_event =
  clientX :: number
  clientY :: number

record page =
  dragging :: bool
  lastMouseX :: number
  lastMouseY :: number
  rotationX :: number
  rotationY :: number
  velocityX :: number
  velocityY :: number
  then_t :: number
  listening :: bool
  raf :: "(program_info \<times> handle) option"
  loading :: "handle option"
  gl :: gl_state

definition friction :: number where
  "friction = 0.95"

definition gl0 :: gl_state where
  "gl0 = \<lparr>calls = [], fresh = 0, shaders = {}, programs = Map.empty, textures = Map.empty,
          texture_2d = None\<rparr>"

definition page0 :: page where
  "page0 = \<lparr>dragging = False, lastMouseX = 0, lastMouseY = 0, rotationX = 0, rotationY = 0,
            velocityX = 0, velocityY = 0, then_t = 0, listening = False, raf = None,
            loading = None, gl = gl0\<rparr>"

subsection \<open>Shader program creation (lines 110-135)\<close>

definition loadShader ::
    "env \<Rightarrow> shader_type \<Rightarrow> shader_source \<Rightarrow> gl_state \<Rightarrow> handle option \<times> gl_state" where
  "loadShader e ty source g =
     (let (shader, g1) = createShader ty g;
          g2 = shaderSource shader source g1;
          g3 = compileShader shader g2
      in if \<not> compile_status e ty source
         then (let g4 = alert (''An error occurred compiling the shaders: '' @ info_log e) g3;
                   g5 = deleteShader shader g4
               in (None, g5))
         else (Some shader, g3))"

definition initShaderProgram ::
    "env \<Rightarrow> shader_source \<Rightarrow> shader_source \<Rightarrow> gl_state
       \<Rightarrow> (error + handle option) \<times> gl_state" where
  "initShaderProgram e vsSource fsSource g =
     (let (vertexShader, g1) = loadShader e VERTEX_SHADER vsSource g;
          (fragmentShader, g2) = loadShader e FRAGMENT_SHADER fsSource g1;
          (shaderProgram, g3) = createProgram g2
      in case attachShader e shaderProgram vertexShader g3 of
           (Inl err, g4) \<Rightarrow> (Inl err, g4)
         | (Inr _, g4) \<Rightarrow>
             (case attachShader e shaderProgram fragmentShader g4 of
                (Inl err, g5) \<Rightarrow> (Inl err, g5)
              | (Inr _, g5) \<Rightarrow>
                  (let g6 = linkProgram e shaderProgram g5
                   in if \<not> getProgramParameter shaderProgram g6
                      then (Inr None,
                            alert (''Unable to initialize the shader program: '' @ info_log e) g6)
                      else (Inr (Some shaderProgram), g6))))"

subsection \<open>Texture loading (lines 138-161)\<close>

definition isPowerOf2 :: "int \<Rightarrow> bool" where
  "isPowerOf2 v \<longleftrightarrow> ((word_of_int v :: 32 word) AND word_of_int (v - 1)) = 0"

definition onload :: "handle \<Rightarrow> html_image \<Rightarrow> gl_state \<Rightarrow> gl_state" where
  "onload tex img g =
     (let g1 = bindTexture tex g;
          g2 = texImage2D (ImageSource img) g1
      in if isPowerOf2 (width img) \<and> isPowerOf2 (height img) then generateMipmap g2
         else (let g3 = texParameteri TEXTURE_WRAP_S CLAMP_TO_EDGE g2;
                   g4 = texParameteri TEXTURE_WRAP_T CLAMP_TO_EDGE g3
               in texParameteri TEXTURE_MIN_FILTER LINEAR g4))"

definition loadTexture :: "string \<Rightarrow> page \<Rightarrow> handle \<times> page" where
  "loadTexture url s =
     (let (tex, g1) = createTexture (gl s);
          g2 = bindTexture tex g1;
          pixel = [0, 0, 255, 255];
          g3 = texImage2D (Pixels 1 1 pixel) g2;
          g4 = log (SetImageSrc url) g3
      in (tex, s\<lparr>loading := Some tex, gl := g4\<rparr>))"

subsection \<open>Pointer handlers (lines 75-87)\<close>

definition mousedown :: "mouse_event \<Rightarrow> page \<Rightarrow> page" where
  "mousedown e s = s\<lparr>dragging := True, lastMouseX := clientX e, lastMouseY := clientY e\<rparr>"

definition mouseup :: "page \<Rightarrow> page" where
  "mouseup s = s\<lparr>dragging := False\<rparr>"

definition mousemove :: "mouse_event \<Rightarrow> page \<Rightarrow> page" where
  "mousemove e s =
     (if \<not> dragging s then s
      else
        (let dx = clientX e - lastMouseX s;
             dy = clientY e - lastMouseY s;
             s1 = s\<lparr>velocityY := dx * 0.01\<rparr>;
             s2 = s1\<lparr>velocityX := dy * 0.01\<rparr>;
             s3 = s2\<lparr>rotationY := rotationY s2 + velocityY s2\<rparr>;
             s4 = s3\<lparr>rotationX := rotationX s3 + velocityX s3\<rparr>
         in s4\<lparr>lastMouseX := clientX e, lastMouseY := clientY e\<rparr>))"

definition contextmenu :: "page \<Rightarrow> page" where
  "contextmenu s = s"

subsection \<open>The render loop (lines 91-106)\<close>

definition render :: "program_info \<Rightarrow> handle \<Rightarrow> number \<Rightarrow> page \<Rightarrow> page" where
  "render programInfo tex now0 s =
     (let now = now0 * 0.001;
          deltaTime = now - then_t s;
          s1 = s\<lparr>then_t := now\<rparr>;
          s2 = s1\<lparr>gl := clear (gl s1)\<rparr>;
          s3 = (if \<not> dragging s2
                then (let a = s2\<lparr>rotationX := rotationX s2 + velocityX s2\<rparr>;
                          b = a\<lparr>rotationY := rotationY a + velocityY a\<rparr>;
                          c = b\<lparr>velocityX := velocityX b * friction\<rparr>
                      in c\<lparr>velocityY := velocityY c * friction\<rparr>)
                else s2);
          s4 = s3\<lparr>gl := drawScene programInfo tex (rotationX s3) (rotationY s3) (gl s3)\<rparr>
      in s4\<lparr>raf := Some (programInfo, tex), gl := log RequestAnimationFrame (gl s4)\<rparr>)"

subsection \<open>Start-up (lines 9-107)\<close>

definition and_then :: "error + 'a \<Rightarrow> ('a \<Rightarrow> error + 'b) \<Rightarrow> error + 'b" where
  "and_then r k = (case r of Inl err \<Rightarrow> Inl err | Inr v \<Rightarrow> k v)"

definition resolve_locations ::
    "env \<Rightarrow> gl_state \<Rightarrow> handle option \<Rightarrow> error + program_info" where
  "resolve_locations e g shaderProgram =
     and_then (getAttribLocation e g shaderProgram ''aVertexPosition'') (\<lambda>vp.
     and_then (getAttribLocation e g shaderProgram ''aVertexNormal'') (\<lambda>vn.
     and_then (getAttribLocation e g shaderProgram ''aTextureCoord'') (\<lambda>tc.
     and_then (getUniformLocation e g shaderProgram ''uProjectionMatrix'') (\<lambda>pm.
     and_then (getUniformLocation e g shaderProgram ''uModelViewMatrix'') (\<lambda>mv.
     and_then (getUniformLocation e g shaderProgram ''uNormalMatrix'') (\<lambda>nm.
     and_then (getUniformLocation e g shaderProgram ''uSampler'') (\<lambda>us.
       Inr \<lparr>program = shaderProgram, vertexPosition = vp, vertexNormal = vn, textureCoord = tc,
            projectionMatrix = pm, modelViewMatrix = mv, normalMatrix = nm, uSampler = us\<rparr>)))))))"

definition main :: "env \<Rightarrow> page \<Rightarrow> (error + unit) \<times> page" where
  "main e s =
     (if \<not> webgl e then (Inr (), s\<lparr>gl := alert ''Unable to initialize WebGL.'' (gl s)\<rparr>)
      else
        (case initShaderProgram e VsSource FsSource (gl s) of
           (Inl err, g1) \<Rightarrow> (Inl err, s\<lparr>gl := g1\<rparr>)
         | (Inr shaderProgram, g1) \<Rightarrow>
             (case resolve_locations e g1 shaderProgram of
                Inl err \<Rightarrow> (Inl err, s\<lparr>gl := g1\<rparr>)
              | Inr programInfo \<Rightarrow>
                  (let s1 = s\<lparr>gl := initBuffers g1\<rparr>;
                       (tex, s2) = loadTexture ''images/cubetexture.png'' s1;
                       s3 = s2\<lparr>gl := pixelStorei (gl s2)\<rparr>;
                       s4 = s3\<lparr>listening := True,
                              gl := log (AddEventListener ''contextmenu'')
                                     (log (AddEventListener ''mousemove'')
                                       (log (AddEventListener ''mouseup'')
                                         (log (AddEventListener ''mousedown'') (gl s3))))\<rparr>;
                       s5 = s4\<lparr>then_t := 0\<rparr>
                   in (Inr (), s5\<lparr>raf := Some (programInfo, tex),
                                  gl := log RequestAnimationFrame (gl s5)\<rparr>)))))"

subsection \<open>The browser delivering events to what the page registered\<close>

datatype event =
    Mousedown mouse_event
  | Mouseup
  | Mousemove mouse_event
  | Contextmenu
  | Frame number
  | Load html_image

fun deliver :: "event \<Rightarrow> page \<Rightarrow> page" where
  "deliver (Mousedown e) s = (if listening s then mousedown e s else s)"
| "deliver Mouseup s = (if listening s then mouseup s else s)"
| "deliver (Mousemove e) s = (if listening s then mousemove e s else s)"
| "deliver Contextmenu s = (if listening s then contextmenu s else s)"
| "deliver (Frame now) s =
     (case raf s of
        None \<Rightarrow> s
      | Some (programInfo, tex) \<Rightarrow> render programInfo tex now (s\<lparr>raf := None\<rparr>))"
| "deliver (Load img) s =
     (case loading s of
        None \<Rightarrow> s
      | Some tex \<Rightarrow> s\<lparr>loading := None, gl := onload tex img (gl s)\<rparr>)"

fun run :: "event list \<Rightarrow> page \<Rightarrow> page" where
  "run [] s = s"
| "run (ev # evs) s = run evs (deliver ev s)"

section \<open>Pointer deltas\<close>

text \<open>
  The deltas of a sequence of pointer-move events, each taken against the pointer position
  recorded before it: the first against the recorded position \<open>x0\<close>, every later one against
  the event before it. This is the specification's reading of the sequence, set against
  the handlers in the theorems below.
\<close>

definition deltasX :: "number \<Rightarrow> mouse_event list \<Rightarrow> number list" where
  "deltasX x0 es = map2 (\<lambda>e x. clientX e - x) es (x0 # map clientX es)"

definition deltasY :: "number \<Rightarrow> mouse_event list \<Rightarrow> number list" where
  "deltasY y0 es = map2 (\<lambda>e y. clientY e - y) es (y0 # map clientY es)"

section \<open>Concrete surroundings and sessions\<close>

text \<open>
  A context in which everything succeeds, and a session on it: start-up, a press at
  \<open>(100, 100)\<close>, and a press at the origin dragged to \<open>(0, 10)\<close> and released.
\<close>

definition locations :: "string \<Rightarrow> handle option" where
  "locations name =
     (if name = ''uProjectionMatrix'' then Some 0
      else if name = ''uModelViewMatrix'' then Some 1
      else if name = ''uNormalMatrix'' then Some 2
      else if name = ''uSampler'' then Some 3 else None)"

definition slots :: "string \<Rightarrow> int" where
  "slots name =
     (if name = ''aVertexPosition'' then 0
      else if name = ''aVertexNormal'' then 1
      else if name = ''aTextureCoord'' then 2 else - 1)"

definition env_ok :: env where
  "env_ok = \<lparr>webgl = True, compile_status = (\<lambda>ty source. True), link_status = True,
             attrib_location = slots, uniform_location = locations,
             null_object = ThrowsTypeError, info_log = ''''\<rparr>"

definition started :: page where
  "started = snd (main env_ok page0)"

definition at_xy :: "number \<Rightarrow> number \<Rightarrow> mouse_event" where
  "at_xy x y = \<lparr>clientX = x, clientY = y\<rparr>"

definition pressed :: page where
  "pressed = deliver (Mousedown (at_xy 100 100)) started"

text \<open>The press at \<open>(100, 100)\<close> dragged to \<open>(150, 120)\<close> and still held.\<close>

definition dragged :: page where
  "dragged = deliver (Mousemove (at_xy 150 120)) pressed"

definition released :: page where
  "released = run [Mousedown (at_xy 0 0), Mousemove (at_xy 0 10), Mouseup] started"

text \<open>Ten frames, 60 to the second.\<close>

definition ten_frames :: "event list" where
  "ten_frames = map Frame [16, 33, 50, 66, 83, 100, 116, 133, 150, 166]"

text \<open>
  Contexts in which one step of start-up fails: the fragment stage does not compile (on a
  platform that tolerates \<open>null\<close> objects, and on one that throws), the two stages do not
  link, and two expected names are not active in the linked program.
\<close>

definition env_fs_fails :: env where
  "env_fs_fails = env_ok\<lparr>compile_status := (\<lambda>ty source. ty = VERTEX_SHADER),
                         null_object := RecordsInvalidValue,
                         info_log := ''ERROR: 0:8: syntax error''\<rparr>"

definition env_fs_fails_strict :: env where
  "env_fs_fails_strict = env_fs_fails\<lparr>null_object := ThrowsTypeError\<rparr>"

definition env_link_fails :: env where
  "env_link_fails = env_ok\<lparr>link_status := False, info_log := ''varyings do not match''\<rparr>"

definition env_missing :: env where
  "env_missing =
     env_ok\<lparr>attrib_location := (\<lambda>name. if name = ''aVertexNormal'' then - 1 else slots name),
            uniform_location := (\<lambda>name. if name = ''uSampler'' then None else locations name)\<rparr>"

text \<open>The \<open>programInfo\<close> that \<open>main\<close> builds from a \<open>null\<close> program where \<open>null\<close> is tolerated.\<close>

definition null_info :: program_info where
  "null_info = \<lparr>program = None, vertexPosition = - 1, vertexNormal = - 1, textureCoord = - 1,
                projectionMatrix = None, modelViewMatrix = None, normalMatrix = None,
                uSampler = None\<rparr>"

text \<open>A texture object of the context that holds an image at level 0.\<close>

definition has_image :: "handle \<Rightarrow> gl_state \<Rightarrow> bool" where
  "has_image tex g = (case textures g tex of None \<Rightarrow> False | Some obj \<Rightarrow> level0 obj \<noteq> None)"

text \<open>The cube texture as a 256 by 256 image, and images without a size.\<close>

definition cube_png :: html_image where
  "cube_png = \<lparr>src = ''images/cubetexture.png'', width = 256, height = 256\<rparr>"

definition sizeless :: "string \<Rightarrow> html_image" where
  "sizeless url = \<lparr>src = url, width = 0, height = 0\<rparr>"

section \<open>Properties\<close>

lemma run_append: "run (xs @ ys) s = run ys (run xs s)"
  by (induction xs arbitrary: s) simp_all

lemmas platform_defs =
  log_def alert_def createShader_def shaderSource_def compileShader_def deleteShader_def
  createProgram_def attachShader_def linkProgram_def getProgramParameter_def
  getAttribLocation_def getUniformLocation_def createTexture_def bindTexture_def on_bound_def
  texImage2D_def generateMipmap_def texParameteri_def pixelStorei_def clear_def
  initBuffers_def drawScene_def

lemmas startup_defs =
  main_def initShaderProgram_def loadShader_def loadTexture_def resolve_locations_def
  and_then_def

lemma started_eq:
  "started =
     \<lparr>dragging = False, lastMouseX = 0, lastMouseY = 0, rotationX = 0, rotationY = 0,
      velocityX = 0, velocityY = 0, then_t = 0, listening = True,
      raf = Some (\<lparr>program = Some 2, vertexPosition = 0, vertexNormal = 1, textureCoord = 2,
                   projectionMatrix = Some 0, modelViewMatrix = Some 1, normalMatrix = Some 2,
                   uSampler = Some 3\<rparr>, 3),
      loading = Some 3,
      gl = gl (snd (main env_ok page0))\<rparr>"
  by (simp add: started_def startup_defs platform_defs env_ok_def page0_def gl0_def slots_def
      locations_def Let_def numeral_2_eq_2 numeral_3_eq_3)

lemma released_fields:
  "\<not> dragging released" "raf released = raf started" "velocityX released = 0.1"
  "velocityY released = 0" "rotationX released = 0.1" "rotationY released = 0"
  by (simp_all add: released_def started_eq mousedown_def mousemove_def mouseup_def at_xy_def Let_def)

subsection \<open>Idle frames\<close>

lemma frame_idle:
  assumes "raf s = Some c" "\<not> dragging s"
  shows "velocityX (deliver (Frame t) s) = velocityX s * friction"
    and "velocityY (deliver (Frame t) s) = velocityY s * friction"
    and "rotationX (deliver (Frame t) s) = rotationX s + velocityX s"
    and "rotationY (deliver (Frame t) s) = rotationY s + velocityY s"
    and "raf (deliver (Frame t) s) = Some c"
    and "\<not> dragging (deliver (Frame t) s)"
  using assms by (cases c; simp add: render_def Let_def)+

lemma frames_idle:
  assumes "raf s = Some c" "\<not> dragging s"
  shows "velocityX (run (map Frame ts) s) = velocityX s * friction ^ length ts
       \<and> velocityY (run (map Frame ts) s) = velocityY s * friction ^ length ts
       \<and> rotationX (run (map Frame ts) s)
           = rotationX s + velocityX s * (1 - friction ^ length ts) / (1 - friction)
       \<and> rotationY (run (map Frame ts) s)
           = rotationY s + velocityY s * (1 - friction ^ length ts) / (1 - friction)"
  using assms
proof (induction ts arbitrary: s)
  case Nil
  then show ?case by simp
next
  case (Cons t ts)
  note st = frame_idle[OF Cons.prems, of t]
  define s' where "s' = deliver (Frame t) s"
  have ih: "velocityX (run (map Frame ts) s') = velocityX s' * friction ^ length ts
       \<and> velocityY (run (map Frame ts) s') = velocityY s' * friction ^ length ts
       \<and> rotationX (run (map Frame ts) s')
           = rotationX s' + velocityX s' * (1 - friction ^ length ts) / (1 - friction)
       \<and> rotationY (run (map Frame ts) s')
           = rotationY s' + velocityY s' * (1 - friction ^ length ts) / (1 - friction)"
    unfolding s'_def by (rule Cons.IH[OF st(5) st(6)])
  have f: "1 - friction \<noteq> 0" by (simp add: friction_def)
  show ?case
    using ih f unfolding s'_def st(1-4)
    by (simp add: field_simps del: deliver.simps)
qed

lemma decay_limit:
  fixes a v :: real
  shows "(\<lambda>N. a + v * (1 - 0.95 ^ N) / (1 - 0.95)) \<longlonglongrightarrow> a + v / (1 - 0.95)"
proof -
  have "(\<lambda>N. (0.95::real) ^ N) \<longlonglongrightarrow> 0"
    by (rule LIMSEQ_realpow_zero) simp_all
  then have "(\<lambda>N. a + v * (1 - 0.95 ^ N) / (1 - 0.95)) \<longlonglongrightarrow> a + v * (1 - 0) / (1 - 0.95)"
    by (intro tendsto_intros) simp_all
  then show ?thesis by simp
qed

text \<open>
  Claim C1. In the Idle state (not dragging, the render loop running), \<open>N\<close> consecutive frame
  ticks leave each angular velocity at its initial value times \<open>0.95 ^ N\<close> and each angle at
  its initial value plus the geometric partial sum \<open>v * (1 - 0.95 ^ N) / (1 - 0.95)\<close>; as \<open>N\<close>
  grows the angle converges to \<open>angle + v / (1 - 0.95)\<close>, whatever the time stamps of the
  frames; and one tick adds the velocity to the angle first and then multiplies the
  velocity by \<open>0.95\<close>. Pitch is \<open>rotationX\<close> with \<open>velocityX\<close>, yaw is \<open>rotationY\<close> with
  \<open>velocityY\<close>.
\<close>

theorem idle_decay:
  assumes "\<not> dragging s" and "raf s = Some c"
  shows "velocityX (run (map Frame ts) s) = velocityX s * 0.95 ^ length ts
       \<and> velocityY (run (map Frame ts) s) = velocityY s * 0.95 ^ length ts
       \<and> rotationX (run (map Frame ts) s)
           = rotationX s + velocityX s * (1 - 0.95 ^ length ts) / (1 - 0.95)
       \<and> rotationY (run (map Frame ts) s)
           = rotationY s + velocityY s * (1 - 0.95 ^ length ts) / (1 - 0.95)
       \<and> (\<lambda>N. rotationX (run (map Frame (map now [0..<N])) s))
             \<longlonglongrightarrow> rotationX s + velocityX s / (1 - 0.95)
       \<and> (\<lambda>N. rotationY (run (map Frame (map now [0..<N])) s))
             \<longlonglongrightarrow> rotationY s + velocityY s / (1 - 0.95)
       \<and> rotationX (deliver (Frame t) s) = rotationX s + velocityX s
       \<and> rotationY (deliver (Frame t) s) = rotationY s + velocityY s
       \<and> velocityX (deliver (Frame t) s) = velocityX s * 0.95
       \<and> velocityY (deliver (Frame t) s) = velocityY s * 0.95"
proof -
  note closed = frames_idle[OF assms(2) assms(1), unfolded friction_def]
  have X: "(\<lambda>N. rotationX (run (map Frame (map now [0..<N])) s))
      = (\<lambda>N. rotationX s + velocityX s * (1 - 0.95 ^ N) / (1 - 0.95))"
    using closed[of "map now [0..<N]" for N] by (simp del: One_nat_def)
  have Y: "(\<lambda>N. rotationY (run (map Frame (map now [0..<N])) s))
      = (\<lambda>N. rotationY s + velocityY s * (1 - 0.95 ^ N) / (1 - 0.95))"
    using closed[of "map now [0..<N]" for N] by (simp del: One_nat_def)
  show ?thesis
    using closed[of ts] frame_idle[OF assms(2) assms(1), of t, unfolded friction_def]
    unfolding X Y
    by (intro conjI decay_limit) simp_all
qed

lemma pressed_fields:
  "dragging pressed" "listening pressed" "raf pressed = raf started" "lastMouseX pressed = 100"
  "lastMouseY pressed = 100" "rotationX pressed = 0" "rotationY pressed = 0"
  "velocityX pressed = 0" "velocityY pressed = 0"
  by (simp_all add: pressed_def started_eq mousedown_def at_xy_def)

lemma dragged_fields:
  "dragging dragged" "listening dragged" "raf dragged = raf started" "lastMouseX dragged = 150"
  "lastMouseY dragged = 120" "rotationX dragged = 0.2" "rotationY dragged = 0.5"
  "velocityX dragged = 0.2" "velocityY dragged = 0.5"
  by (simp_all add: dragged_def pressed_def started_eq mousedown_def mousemove_def at_xy_def Let_def)

lemma raf_started:
  "raf started = Some (\<lparr>program = Some 2, vertexPosition = 0, vertexNormal = 1,
      textureCoord = 2, projectionMatrix = Some 0, modelViewMatrix = Some 1,
      normalMatrix = Some 2, uSampler = Some 3\<rparr>, 3)"
  by (subst started_eq) simp

text \<open>The session released with pitch velocity \<open>0.1\<close>, followed by three frames.\<close>

theorem idle_decay_witness:
  "\<not> dragging released
   \<and> velocityX (run (map Frame [16, 33, 50]) released) = 0.1 * 0.95 ^ 3
   \<and> rotationX (run (map Frame [16, 33, 50]) released) = 0.1 + 0.1 * (1 - 0.95 ^ 3) / (1 - 0.95)
   \<and> rotationX (deliver (Frame 16) released) = 0.1 + 0.1
   \<and> velocityX (deliver (Frame 16) released) = 0.1 * 0.95"
proof -
  have d: "\<not> dragging released" by (simp add: released_fields)
  have r: "raf released = raf started" by (simp add: released_fields)
  note w = idle_decay [OF d r [unfolded raf_started], of "[16, 33, 50]" "\<lambda>n. 0" 16]
  show ?thesis using d w by (simp add: released_fields eval_nat_numeral del: deliver.simps run.simps)
qed

subsection \<open>Frames while dragging\<close>

text \<open>
  Claim C8. A frame tick delivered while dragging applies no decay step: it changes \<open>then\<close>,
  re-registers the callback it consumed, and adds its three calls (clear, draw, request of
  the next frame) to the context; both angles, both velocities, the last pointer
  coordinates and the dragging flag are as before.
\<close>

theorem frame_while_dragging:
  assumes "dragging s" and "raf s = Some (programInfo, tex)"
  shows "deliver (Frame now) s =
           s\<lparr>then_t := now * 0.001,
             gl := log RequestAnimationFrame
                     (drawScene programInfo tex (rotationX s) (rotationY s) (clear (gl s)))\<rparr>
       \<and> rotationX (deliver (Frame now) s) = rotationX s
       \<and> rotationY (deliver (Frame now) s) = rotationY s
       \<and> velocityX (deliver (Frame now) s) = velocityX s
       \<and> velocityY (deliver (Frame now) s) = velocityY s
       \<and> lastMouseX (deliver (Frame now) s) = lastMouseX s
       \<and> lastMouseY (deliver (Frame now) s) = lastMouseY s
       \<and> dragging (deliver (Frame now) s)"
  using assms by (simp add: render_def Let_def)

text \<open>
  The session pressed at \<open>(100, 100)\<close> and dragged to \<open>(150, 120)\<close>: angles and velocities are
  \<open>0.2\<close> (pitch) and \<open>0.5\<close> (yaw), so a decay step would move both angles and shrink both
  velocities. A frame at 16 ms leaves all of them, and the pointer position, as they are.
\<close>

theorem frame_while_dragging_witness:
  "dragging dragged
   \<and> velocityX dragged = 0.2 \<and> velocityY dragged = 0.5
   \<and> rotationX (deliver (Frame 16) dragged) = 0.2 \<and> rotationY (deliver (Frame 16) dragged) = 0.5
   \<and> velocityX (deliver (Frame 16) dragged) = 0.2 \<and> velocityY (deliver (Frame 16) dragged) = 0.5
   \<and> lastMouseX (deliver (Frame 16) dragged) = 150 \<and> lastMouseY (deliver (Frame 16) dragged) = 120
   \<and> dragging (deliver (Frame 16) dragged)
   \<and> then_t (deliver (Frame 16) dragged) = 0.016"
proof -
  have r: "raf dragged = raf started" by (simp add: dragged_fields)
  have d: "dragging dragged" by (simp add: dragged_fields)
  note w = frame_while_dragging [OF d r [unfolded raf_started], of 16]
  have t: "then_t (deliver (Frame 16) dragged) = 0.016"
    by (subst conjunct1 [OF w]) simp
  show ?thesis using w t by (simp add: dragged_fields del: deliver.simps)
qed

subsection \<open>Moves while dragging\<close>

lemma deltasX_Cons: "deltasX x0 (e # es) = (clientX e - x0) # deltasX (clientX e) es"
  by (simp add: deltasX_def)

lemma deltasY_Cons: "deltasY y0 (e # es) = (clientY e - y0) # deltasY (clientY e) es"
  by (simp add: deltasY_def)

lemma move_drag:
  assumes "listening s" "dragging s"
  shows "rotationY (deliver (Mousemove e) s) = rotationY s + (clientX e - lastMouseX s) * 0.01"
    and "rotationX (deliver (Mousemove e) s) = rotationX s + (clientY e - lastMouseY s) * 0.01"
    and "velocityY (deliver (Mousemove e) s) = (clientX e - lastMouseX s) * 0.01"
    and "velocityX (deliver (Mousemove e) s) = (clientY e - lastMouseY s) * 0.01"
    and "lastMouseX (deliver (Mousemove e) s) = clientX e"
    and "lastMouseY (deliver (Mousemove e) s) = clientY e"
    and "listening (deliver (Mousemove e) s)"
    and "dragging (deliver (Mousemove e) s)"
  using assms by (simp_all add: mousemove_def Let_def)

lemma moves_drag:
  assumes "listening s" "dragging s"
  shows "rotationY (run (map Mousemove es) s)
           = rotationY s + (\<Sum>dx\<leftarrow>deltasX (lastMouseX s) es. dx * 0.01)
       \<and> rotationX (run (map Mousemove es) s)
           = rotationX s + (\<Sum>dy\<leftarrow>deltasY (lastMouseY s) es. dy * 0.01)
       \<and> lastMouseX (run (map Mousemove es) s) = (if es = [] then lastMouseX s else clientX (last es))
       \<and> lastMouseY (run (map Mousemove es) s) = (if es = [] then lastMouseY s else clientY (last es))
       \<and> listening (run (map Mousemove es) s) \<and> dragging (run (map Mousemove es) s)"
  using assms
proof (induction es arbitrary: s)
  case Nil
  then show ?case by (simp add: deltasX_def deltasY_def)
next
  case (Cons e es)
  note st = move_drag [OF Cons.prems, of e]
  note ih = Cons.IH [OF st(7) st(8)]
  show ?case
    using ih unfolding st(1-6)
    by (simp add: deltasX_Cons deltasY_Cons del: deliver.simps)
qed

text \<open>
  Claim C2. Over any finite sequence of pointer-move events delivered while dragging, yaw
  (\<open>rotationY\<close>) grows by the sum of the horizontal deltas times \<open>0.01\<close> and pitch
  (\<open>rotationX\<close>) by the sum of the vertical deltas times \<open>0.01\<close>, each delta taken against
  the previously recorded pointer position; a single move adds its contribution at once.
\<close>

theorem drag_accumulates:
  assumes "listening s" and "dragging s"
  shows "rotationY (run (map Mousemove es) s)
           = rotationY s + (\<Sum>dx\<leftarrow>deltasX (lastMouseX s) es. dx * 0.01)
       \<and> rotationX (run (map Mousemove es) s)
           = rotationX s + (\<Sum>dy\<leftarrow>deltasY (lastMouseY s) es. dy * 0.01)
       \<and> rotationY (deliver (Mousemove e) s) = rotationY s + (clientX e - lastMouseX s) * 0.01
       \<and> rotationX (deliver (Mousemove e) s) = rotationX s + (clientY e - lastMouseY s) * 0.01"
  using moves_drag [OF assms, of es] move_drag(1,2) [OF assms, of e] by (simp del: deliver.simps)

text \<open>The specification's drag from \<open>(100, 100)\<close> to \<open>(150, 120)\<close>, and on to \<open>(160, 110)\<close>.\<close>

theorem drag_accumulates_witness:
  "listening pressed \<and> dragging pressed
   \<and> deltasX (lastMouseX pressed) [at_xy 150 120, at_xy 160 110] = [50, 10]
   \<and> deltasY (lastMouseY pressed) [at_xy 150 120, at_xy 160 110] = [20, - 10]
   \<and> rotationY (run (map Mousemove [at_xy 150 120, at_xy 160 110]) pressed) = 0.6
   \<and> rotationX (run (map Mousemove [at_xy 150 120, at_xy 160 110]) pressed) = 0.1
   \<and> rotationY (deliver (Mousemove (at_xy 150 120)) pressed) = 0.5
   \<and> rotationX (deliver (Mousemove (at_xy 150 120)) pressed) = 0.2"
  using drag_accumulates [of pressed "[at_xy 150 120, at_xy 160 110]" "at_xy 150 120"]
  by (simp add: pressed_fields deltasX_def deltasY_def at_xy_def del: deliver.simps run.simps)

text \<open>
  Claim C10. After any sequence of pointer-moves within a drag, the velocities are the
  final move's deltas times \<open>0.01\<close>: the final position minus the position recorded before
  it, which is the previous move's position (the press position when there is no previous
  move). No earlier move enters, and pointer-up hands exactly these velocities to Idle.
\<close>

theorem flick_from_last_move:
  assumes "listening s" and "dragging s"
  shows "velocityY (run (map Mousemove (es @ [e])) s)
           = (clientX e - (if es = [] then lastMouseX s else clientX (last es))) * 0.01
       \<and> velocityX (run (map Mousemove (es @ [e])) s)
           = (clientY e - (if es = [] then lastMouseY s else clientY (last es))) * 0.01
       \<and> velocityY (deliver Mouseup (run (map Mousemove (es @ [e])) s))
           = velocityY (run (map Mousemove (es @ [e])) s)
       \<and> velocityX (deliver Mouseup (run (map Mousemove (es @ [e])) s))
           = velocityX (run (map Mousemove (es @ [e])) s)
       \<and> \<not> dragging (deliver Mouseup (run (map Mousemove (es @ [e])) s))"
proof -
  note before = moves_drag [OF assms, of es]
  have l: "listening (run (map Mousemove es) s)" and d: "dragging (run (map Mousemove es) s)"
    using before by simp_all
  note st = move_drag [OF l d, of e]
  have split: "run (map Mousemove (es @ [e])) s = deliver (Mousemove e) (run (map Mousemove es) s)"
    by (simp add: run_append)
  show ?thesis
    unfolding split using before st(3,4,7) by (simp add: mouseup_def del: deliver.simps(3))
qed

text \<open>
  Two drags from the press at \<open>(100, 100)\<close>: a long one ending with the move from
  \<open>(400, 7)\<close> to \<open>(410, 10)\<close>, and a single move to \<open>(110, 103)\<close>. Same final deltas, same
  velocities.
\<close>

theorem flick_from_last_move_witness:
  "listening pressed \<and> dragging pressed
   \<and> velocityY (run (map Mousemove ([at_xy 150 120, at_xy 400 7] @ [at_xy 410 10])) pressed) = 0.1
   \<and> velocityX (run (map Mousemove ([at_xy 150 120, at_xy 400 7] @ [at_xy 410 10])) pressed) = 0.03
   \<and> velocityY (run (map Mousemove ([] @ [at_xy 110 103])) pressed) = 0.1
   \<and> velocityX (run (map Mousemove ([] @ [at_xy 110 103])) pressed) = 0.03"
  using flick_from_last_move [of pressed "[at_xy 150 120, at_xy 400 7]" "at_xy 410 10"]
    flick_from_last_move [of pressed "[]" "at_xy 110 103"]
  by (simp add: pressed_fields at_xy_def del: deliver.simps run.simps)

subsection \<open>Ten idle ticks\<close>

lemma friction_pow_10: "friction ^ 10 = 6131066257801 / 10240000000000"
  by (simp add: friction_def power_divide)

text \<open>
  Claim C7, as amended. From pitch velocity \<open>0.1\<close> and yaw velocity \<open>0\<close> in the Idle state,
  ten frame ticks raise the pitch angle by \<open>0.1 * (1 - 0.95 ^ 10) / 0.05\<close>, which is
  \<open>0.8025\<close> to four places, and leave the pitch velocity at \<open>0.0599\<close> to four places; yaw
  and its velocity stay as they are.
\<close>

theorem ten_idle_ticks:
  assumes "\<not> dragging s" and "raf s = Some c" and "velocityX s = 0.1" and "velocityY s = 0"
    and "length ts = 10"
  shows "rotationX (run (map Frame ts) s) - rotationX s = 0.1 * (1 - 0.95 ^ 10) / 0.05
       \<and> \<bar>rotationX (run (map Frame ts) s) - rotationX s - 0.8025\<bar> \<le> 0.00005
       \<and> \<bar>velocityX (run (map Frame ts) s) - 0.0599\<bar> \<le> 0.00005
       \<and> rotationY (run (map Frame ts) s) = rotationY s
       \<and> velocityY (run (map Frame ts) s) = 0"
proof -
  note closed = frames_idle [OF assms(2) assms(1), of ts, unfolded assms(3-5) friction_pow_10]
  have p: "(0.95::real) ^ 10 = 6131066257801 / 10240000000000"
    using friction_pow_10 by (simp only: friction_def)
  show ?thesis using closed unfolding p by (simp add: friction_def)
qed

text \<open>The released session has exactly these velocities.\<close>

theorem ten_idle_ticks_witness:
  "\<not> dragging released \<and> velocityX released = 0.1 \<and> velocityY released = 0
   \<and> rotationX (run ten_frames released) - rotationX released = 0.1 * (1 - 0.95 ^ 10) / 0.05
   \<and> \<bar>rotationX (run ten_frames released) - rotationX released - 0.8025\<bar> \<le> 0.00005
   \<and> \<bar>velocityX (run ten_frames released) - 0.0599\<bar> \<le> 0.00005"
proof -
  have d: "\<not> dragging released" by (simp add: released_fields)
  have r: "raf released = raf started" by (simp add: released_fields)
  note w = ten_idle_ticks [OF d r [unfolded raf_started] released_fields(3) released_fields(4),
      of "[16, 33, 50, 66, 83, 100, 116, 133, 150, 166]"]
  show ?thesis using d w unfolding ten_frames_def by (simp add: released_fields del: run.simps)
qed

text \<open>
  Claim C7 as stated gives the increase as about \<open>0.3487\<close>. On the released session the
  increase is not within \<open>0.4\<close> of that figure.
\<close>

theorem ten_idle_ticks_counterexample:
  "velocityX released = 0.1 \<and> velocityY released = 0 \<and> \<not> dragging released
   \<and> \<not> \<bar>rotationX (run ten_frames released) - rotationX released - 0.3487\<bar> < 0.4"
proof -
  have d: "\<not> dragging released" by (simp add: released_fields)
  have r: "raf released = raf started" by (simp add: released_fields)
  have n: "length [16, 33, 50, 66, 83, 100, 116, 133, 150, 166 :: real] = 10" by simp
  note w = frames_idle [OF r [unfolded raf_started] d,
      of "[16, 33, 50, 66, 83, 100, 116, 133, 150, 166]", unfolded n friction_pow_10 released_fields]
  show ?thesis using d w unfolding ten_frames_def
    by (simp add: released_fields friction_def del: run.simps)
qed

subsection \<open>Start-up when a stage does not compile\<close>

lemma frame_calls:
  assumes "raf s = Some (programInfo, tex)"
  shows "\<exists>rx ry. calls (gl (deliver (Frame now) s))
           = calls (gl s) @ [Clear, DrawScene programInfo tex rx ry, RequestAnimationFrame]"
  using assms by (simp add: render_def Let_def clear_def drawScene_def log_def)

lemma main_tolerated_null:
  assumes "webgl e" and "null_object e = RecordsInvalidValue"
    and "\<not> (compile_status e VERTEX_SHADER VsSource \<and> compile_status e FRAGMENT_SHADER FsSource)"
  shows "fst (main e s) = Inr ()"
    and "raf (snd (main e s)) = Some (null_info, fresh (gl s) + 3)"
    and "LinkProgram (fresh (gl s) + 2) \<in> set (calls (gl (snd (main e s))))"
    and "Alert (''An error occurred compiling the shaders: '' @ info_log e)
           \<in> set (calls (gl (snd (main e s))))"
  using assms
  by (cases "compile_status e VERTEX_SHADER VsSource";
      cases "compile_status e FRAGMENT_SHADER FsSource";
      simp add: startup_defs platform_defs null_info_def Let_def)+


text \<open>
  Claim C3. When a stage fails to compile, \<open>loadShader\<close> reports it and returns \<open>null\<close>, and
  neither \<open>initShaderProgram\<close> nor \<open>main\<close> looks at that result. In a context that tolerates
  the \<open>null\<close> shader, start-up runs to its end: the alert with the compile log is shown,
  \<open>linkProgram\<close> is called on the program created after the failure, \<open>main\<close> returns
  normally with \<open>render\<close> registered, and the next frame calls \<open>drawScene\<close>.
\<close>

theorem compile_failure_not_fatal:
  assumes "webgl e" and "null_object e = RecordsInvalidValue"
    and "\<not> (compile_status e VERTEX_SHADER VsSource \<and> compile_status e FRAGMENT_SHADER FsSource)"
  shows "fst (main e s) = Inr ()
       \<and> Alert (''An error occurred compiling the shaders: '' @ info_log e)
             \<in> set (calls (gl (snd (main e s))))
       \<and> LinkProgram (fresh (gl s) + 2) \<in> set (calls (gl (snd (main e s))))
       \<and> raf (snd (main e s)) = Some (null_info, fresh (gl s) + 3)
       \<and> (\<exists>rx ry. DrawScene null_info (fresh (gl s) + 3) rx ry
                     \<in> set (calls (gl (deliver (Frame now) (snd (main e s))))))"
proof -
  note m = main_tolerated_null [OF assms, of s]
  obtain rx ry where
    "calls (gl (deliver (Frame now) (snd (main e s))))
       = calls (gl (snd (main e s))) @ [Clear, DrawScene null_info (fresh (gl s) + 3) rx ry,
                                        RequestAnimationFrame]"
    using frame_calls [OF m(2), of now] by blast
  then have "DrawScene null_info (fresh (gl s) + 3) rx ry
      \<in> set (calls (gl (deliver (Frame now) (snd (main e s)))))"
    by simp
  then show ?thesis using m by blast
qed

text \<open>The fragment stage failing in a context that tolerates \<open>null\<close>, from the initial page.\<close>

theorem compile_failure_not_fatal_witness:
  "webgl env_fs_fails \<and> null_object env_fs_fails = RecordsInvalidValue
   \<and> \<not> compile_status env_fs_fails FRAGMENT_SHADER FsSource
   \<and> fst (main env_fs_fails page0) = Inr ()
   \<and> Alert ''An error occurred compiling the shaders: ERROR: 0:8: syntax error''
         \<in> set (calls (gl (snd (main env_fs_fails page0))))
   \<and> LinkProgram 2 \<in> set (calls (gl (snd (main env_fs_fails page0))))
   \<and> raf (snd (main env_fs_fails page0)) = Some (null_info, 3)"
proof -
  have e: "webgl env_fs_fails" "null_object env_fs_fails = RecordsInvalidValue"
    "\<not> (compile_status env_fs_fails VERTEX_SHADER VsSource
        \<and> compile_status env_fs_fails FRAGMENT_SHADER FsSource)"
    "info_log env_fs_fails = ''ERROR: 0:8: syntax error''"
    "\<not> compile_status env_fs_fails FRAGMENT_SHADER FsSource"
    by (simp_all add: env_fs_fails_def env_ok_def)
  have f: "fresh (gl page0) = 0" by (simp add: page0_def gl0_def)
  show ?thesis
    using compile_failure_not_fatal [OF e(1-3), of page0 16] e(1,2,4,5)
    by (simp add: f numeral_2_eq_2 del: deliver.simps)
qed

text \<open>
  Where the \<open>null\<close> shader makes \<open>attachShader\<close> throw, the exception is what stops start-up:
  it leaves \<open>main\<close> uncaught after the alert, before \<open>linkProgram\<close> and before anything is
  registered with the browser.
\<close>

lemma main_rejected_null:
  assumes "webgl e" and "null_object e = ThrowsTypeError"
    and "\<not> (compile_status e VERTEX_SHADER VsSource \<and> compile_status e FRAGMENT_SHADER FsSource)"
  shows "fst (main e s) = Inl TypeError"
    and "raf (snd (main e s)) = raf s"
    and "listening (snd (main e s)) = listening s"
    and "loading (snd (main e s)) = loading s"
    and "\<exists>new. calls (gl (snd (main e s))) = calls (gl s) @ new
           \<and> Alert (''An error occurred compiling the shaders: '' @ info_log e) \<in> set new
           \<and> (\<forall>p. LinkProgram p \<notin> set new)"
  using assms
  by (cases "compile_status e VERTEX_SHADER VsSource";
      cases "compile_status e FRAGMENT_SHADER FsSource";
      simp add: startup_defs platform_defs Let_def)+

lemma nothing_registered:
  assumes "\<not> listening s" and "raf s = None" and "loading s = None"
  shows "run evs s = s"
proof (induction evs)
  case Nil
  show ?case by simp
next
  case (Cons ev evs)
  have "deliver ev s = s" using assms by (cases ev) simp_all
  then show ?case using Cons by simp
qed

lemma no_frame_after_rejected_null:
  assumes "webgl e" and "null_object e = ThrowsTypeError"
    and "\<not> (compile_status e VERTEX_SHADER VsSource \<and> compile_status e FRAGMENT_SHADER FsSource)"
  shows "run evs (snd (main e page0)) = snd (main e page0)"
  using main_rejected_null(2-4) [OF assms, of page0]
  by (intro nothing_registered) (simp_all add: page0_def)

text \<open>The same failure of the fragment stage where \<open>null\<close> is rejected, call by call.\<close>

lemma rejected_null_session:
  "fst (main env_fs_fails_strict page0) = Inl TypeError
   \<and> calls (gl (snd (main env_fs_fails_strict page0)))
       = [CreateShader VERTEX_SHADER, ShaderSource 0 VsSource, CompileShader 0,
          CreateShader FRAGMENT_SHADER, ShaderSource 1 FsSource, CompileShader 1,
          Alert ''An error occurred compiling the shaders: ERROR: 0:8: syntax error'',
          DeleteShader 1, CreateProgram, AttachShader 2 (Some 0)]
   \<and> run evs (snd (main env_fs_fails_strict page0)) = snd (main env_fs_fails_strict page0)"
proof -
  have e: "webgl env_fs_fails_strict" "null_object env_fs_fails_strict = ThrowsTypeError"
    "\<not> (compile_status env_fs_fails_strict VERTEX_SHADER VsSource
        \<and> compile_status env_fs_fails_strict FRAGMENT_SHADER FsSource)"
    by (simp_all add: env_fs_fails_strict_def env_fs_fails_def env_ok_def)
  have "fst (main env_fs_fails_strict page0) = Inl TypeError
   \<and> calls (gl (snd (main env_fs_fails_strict page0)))
       = [CreateShader VERTEX_SHADER, ShaderSource 0 VsSource, CompileShader 0,
          CreateShader FRAGMENT_SHADER, ShaderSource 1 FsSource, CompileShader 1,
          Alert ''An error occurred compiling the shaders: ERROR: 0:8: syntax error'',
          DeleteShader 1, CreateProgram, AttachShader 2 (Some 0)]"
    by (simp add: startup_defs platform_defs env_fs_fails_strict_def env_fs_fails_def env_ok_def
        page0_def gl0_def Let_def numeral_2_eq_2)
  then show ?thesis using no_frame_after_rejected_null [OF e, of evs] by simp
qed

subsection \<open>Start-up when the stages do not link\<close>

lemma loadShader_failure:
  assumes "\<not> compile_status e ty source"
  shows "fst (loadShader e ty source g) = None"
    and "fresh g \<notin> shaders (snd (loadShader e ty source g))"
    and "calls (snd (loadShader e ty source g))
           = calls g @ [CreateShader ty, ShaderSource (fresh g) source, CompileShader (fresh g),
                        Alert (''An error occurred compiling the shaders: '' @ info_log e),
                        DeleteShader (fresh g)]"
  using assms by (simp_all add: loadShader_def platform_defs Let_def)

text \<open>
  Claim C5. When both stages compile and do not link, \<open>initShaderProgram\<close> shows the alert
  and returns \<open>null\<close>. The alert is its last call: the program object created for the
  attempt stays in the context's store, with both stages attached. (A stage that fails to
  compile is deleted by \<open>loadShader\<close>: \<open>loadShader_failure\<close>.)
\<close>

theorem link_failure_keeps_program:
  assumes "compile_status e VERTEX_SHADER vsSource" and "compile_status e FRAGMENT_SHADER fsSource"
    and "\<not> link_status e"
  shows "fst (initShaderProgram e vsSource fsSource g) = Inr None
       \<and> calls (snd (initShaderProgram e vsSource fsSource g))
           = calls g @ [CreateShader VERTEX_SHADER, ShaderSource (fresh g) vsSource,
                        CompileShader (fresh g),
                        CreateShader FRAGMENT_SHADER, ShaderSource (fresh g + 1) fsSource,
                        CompileShader (fresh g + 1),
                        CreateProgram,
                        AttachShader (fresh g + 2) (Some (fresh g)),
                        AttachShader (fresh g + 2) (Some (fresh g + 1)),
                        LinkProgram (fresh g + 2),
                        Alert (''Unable to initialize the shader program: '' @ info_log e)]
       \<and> programs (snd (initShaderProgram e vsSource fsSource g)) (fresh g + 2)
           = Some \<lparr>attached = [fresh g, fresh g + 1], linked = False\<rparr>"
  using assms by (simp add: initShaderProgram_def loadShader_def platform_defs Let_def)

text \<open>The two stages of the page failing to link, from the initial context.\<close>

theorem link_failure_keeps_program_witness:
  "compile_status env_link_fails VERTEX_SHADER VsSource
   \<and> compile_status env_link_fails FRAGMENT_SHADER FsSource
   \<and> \<not> link_status env_link_fails
   \<and> fst (initShaderProgram env_link_fails VsSource FsSource gl0) = Inr None
   \<and> last (calls (snd (initShaderProgram env_link_fails VsSource FsSource gl0)))
       = Alert ''Unable to initialize the shader program: varyings do not match''
   \<and> programs (snd (initShaderProgram env_link_fails VsSource FsSource gl0)) 2
       = Some \<lparr>attached = [0, 1], linked = False\<rparr>"
proof -
  have e: "compile_status env_link_fails VERTEX_SHADER VsSource"
    "compile_status env_link_fails FRAGMENT_SHADER FsSource" "\<not> link_status env_link_fails"
    "info_log env_link_fails = ''varyings do not match''"
    by (simp_all add: env_link_fails_def env_ok_def)
  have f: "fresh gl0 = 0" "calls gl0 = []" by (simp_all add: gl0_def)
  show ?thesis
    using link_failure_keeps_program [OF e(1-3), of gl0] e
    by (simp add: f numeral_2_eq_2)
qed

subsection \<open>Resolving the locations\<close>

text \<open>
  Claim C4, as amended. After a successful link \<open>main\<close> looks the three attributes and the
  four uniforms up by name and stores what the context answers, \<open>-1\<close> or \<open>null\<close> for a name
  that is not active, in \<open>programInfo\<close>. Nothing is checked and nothing is reported: the calls
  of start-up are the same whatever the answers are, none of them is an alert, \<open>main\<close>
  returns normally, the listeners are registered and \<open>render\<close> is registered with that
  \<open>programInfo\<close>.
\<close>

theorem locations_stored_unchecked:
  assumes "webgl e" and "compile_status e VERTEX_SHADER VsSource"
    and "compile_status e FRAGMENT_SHADER FsSource" and "link_status e"
  shows "fst (main e s) = Inr ()
       \<and> raf (snd (main e s))
           = Some (\<lparr>program = Some (fresh (gl s) + 2),
                    vertexPosition = attrib_location e ''aVertexPosition'',
                    vertexNormal = attrib_location e ''aVertexNormal'',
                    textureCoord = attrib_location e ''aTextureCoord'',
                    projectionMatrix = uniform_location e ''uProjectionMatrix'',
                    modelViewMatrix = uniform_location e ''uModelViewMatrix'',
                    normalMatrix = uniform_location e ''uNormalMatrix'',
                    uSampler = uniform_location e ''uSampler''\<rparr>, fresh (gl s) + 3)
       \<and> calls (gl (snd (main e s)))
           = calls (gl s) @
             [CreateShader VERTEX_SHADER, ShaderSource (fresh (gl s)) VsSource,
              CompileShader (fresh (gl s)),
              CreateShader FRAGMENT_SHADER, ShaderSource (fresh (gl s) + 1) FsSource,
              CompileShader (fresh (gl s) + 1),
              CreateProgram,
              AttachShader (fresh (gl s) + 2) (Some (fresh (gl s))),
              AttachShader (fresh (gl s) + 2) (Some (fresh (gl s) + 1)),
              LinkProgram (fresh (gl s) + 2),
              InitBuffers,
              CreateTexture, BindTexture (fresh (gl s) + 3),
              TexImage2D (Pixels 1 1 [0, 0, 255, 255]),
              SetImageSrc ''images/cubetexture.png'',
              PixelStorei,
              AddEventListener ''mousedown'', AddEventListener ''mouseup'',
              AddEventListener ''mousemove'', AddEventListener ''contextmenu'',
              RequestAnimationFrame]
       \<and> (\<forall>msg. Alert msg \<notin> set (drop (length (calls (gl s))) (calls (gl (snd (main e s))))))
       \<and> listening (snd (main e s))"
  using assms by (simp add: startup_defs platform_defs Let_def)

text \<open>
  The context whose linked program has neither \<open>aVertexNormal\<close> nor \<open>uSampler\<close>, from the
  initial page.
\<close>

theorem locations_stored_unchecked_witness:
  "webgl env_missing \<and> link_status env_missing
   \<and> attrib_location env_missing ''aVertexNormal'' = - 1
   \<and> uniform_location env_missing ''uSampler'' = None
   \<and> fst (main env_missing page0) = Inr ()
   \<and> map_option (vertexNormal \<circ> fst) (raf (snd (main env_missing page0))) = Some (- 1)
   \<and> map_option (uSampler \<circ> fst) (raf (snd (main env_missing page0))) = Some None
   \<and> map_option (vertexPosition \<circ> fst) (raf (snd (main env_missing page0))) = Some 0
   \<and> calls (gl (snd (main env_missing page0)))
       = [CreateShader VERTEX_SHADER, ShaderSource 0 VsSource, CompileShader 0,
          CreateShader FRAGMENT_SHADER, ShaderSource 1 FsSource, CompileShader 1,
          CreateProgram, AttachShader 2 (Some 0), AttachShader 2 (Some 1), LinkProgram 2,
          InitBuffers, CreateTexture, BindTexture 3, TexImage2D (Pixels 1 1 [0, 0, 255, 255]),
          SetImageSrc ''images/cubetexture.png'', PixelStorei,
          AddEventListener ''mousedown'', AddEventListener ''mouseup'',
          AddEventListener ''mousemove'', AddEventListener ''contextmenu'',
          RequestAnimationFrame]
   \<and> listening (snd (main env_missing page0))"
proof -
  have e: "webgl env_missing" "compile_status env_missing VERTEX_SHADER VsSource"
    "compile_status env_missing FRAGMENT_SHADER FsSource" "link_status env_missing"
    by (simp_all add: env_missing_def env_ok_def)
  have f: "fresh (gl page0) = 0" "calls (gl page0) = []" by (simp_all add: page0_def gl0_def)
  show ?thesis
    using locations_stored_unchecked [OF e, of page0] e
    by (simp add: f env_missing_def env_ok_def slots_def numeral_2_eq_2 numeral_3_eq_3)
qed

text \<open>
  Claim C4 as stated has a missing name raise an error. In a context whose linked program
  has neither \<open>aVertexNormal\<close> nor \<open>uSampler\<close>, \<open>main\<close> returns normally and registers
  \<open>render\<close> with \<open>-1\<close> and \<open>null\<close> in their places; its calls run from the first
  \<open>createShader\<close> to the request of the first frame, with no alert among them.
\<close>

theorem missing_name_counterexample:
  "attrib_location env_missing ''aVertexNormal'' = - 1
   \<and> uniform_location env_missing ''uSampler'' = None
   \<and> fst (main env_missing page0) = Inr ()
   \<and> raf (snd (main env_missing page0))
       = Some (\<lparr>program = Some 2, vertexPosition = 0, vertexNormal = - 1, textureCoord = 2,
                projectionMatrix = Some 0, modelViewMatrix = Some 1, normalMatrix = Some 2,
                uSampler = None\<rparr>, 3)
   \<and> calls (gl (snd (main env_missing page0)))
       = [CreateShader VERTEX_SHADER, ShaderSource 0 VsSource, CompileShader 0,
          CreateShader FRAGMENT_SHADER, ShaderSource 1 FsSource, CompileShader 1,
          CreateProgram, AttachShader 2 (Some 0), AttachShader 2 (Some 1), LinkProgram 2,
          InitBuffers, CreateTexture, BindTexture 3, TexImage2D (Pixels 1 1 [0, 0, 255, 255]),
          SetImageSrc ''images/cubetexture.png'', PixelStorei,
          AddEventListener ''mousedown'', AddEventListener ''mouseup'',
          AddEventListener ''mousemove'', AddEventListener ''contextmenu'',
          RequestAnimationFrame]"
  by (simp add: startup_defs platform_defs env_missing_def env_ok_def slots_def locations_def
      page0_def gl0_def Let_def numeral_2_eq_2 numeral_3_eq_3)

subsection \<open>The power-of-two test\<close>

lemma and_pred_nat:
  fixes n :: nat
  assumes "0 < n"
  shows "n AND (n - 1) = 0 \<longleftrightarrow> (\<exists>k. n = 2 ^ k)"
  using assms
proof (induction n rule: less_induct)
  case (less n)
  show ?case
  proof (cases "n = 1")
    case True
    then show ?thesis by (auto intro: exI [of _ 0])
  next
    case False
    with less.prems have n2: "2 \<le> n" by simp
    show ?thesis
    proof (cases "even n")
      case True
      then obtain m where m: "n = 2 * m" by (elim evenE)
      with n2 have m0: "0 < m" and mn: "m < n" by simp_all
      have "(n - 1) div 2 = m - 1" using m m0 by simp
      moreover have "odd (n - 1)" using True n2 by simp
      ultimately have "n AND (n - 1) = 2 * (m AND (m - 1))"
        using and_nat_rec [of n "n - 1"] True m by simp
      then have "n AND (n - 1) = 0 \<longleftrightarrow> (\<exists>k. m = 2 ^ k)"
        using less.IH [OF mn m0] by simp
      also have "\<dots> \<longleftrightarrow> (\<exists>k. n = 2 ^ k)"
      proof
        assume "\<exists>k. m = 2 ^ k"
        then obtain k where "m = 2 ^ k" ..
        then have "n = 2 ^ Suc k" using m by simp
        then show "\<exists>k. n = 2 ^ k" ..
      next
        assume "\<exists>k. n = 2 ^ k"
        then obtain k where k: "n = 2 ^ k" ..
        with False have "k \<noteq> 0" by (cases k) simp_all
        then obtain j where "k = Suc j" by (cases k) simp_all
        with k m have "m = 2 ^ j" by simp
        then show "\<exists>k. m = 2 ^ k" ..
      qed
      finally show ?thesis .
    next
      case False
      then obtain m where m: "n = 2 * m + 1" by (elim oddE)
      with n2 have m0: "0 < m" by simp
      have "(n - 1) div 2 = m" "n div 2 = m" using m by simp_all
      moreover have "even (n - 1)" using False by simp
      ultimately have "n AND (n - 1) = 2 * m"
        using and_nat_rec [of n "n - 1"] False by simp
      then have "n AND (n - 1) \<noteq> 0" using m0 by simp
      moreover have "\<not> (\<exists>k. n = 2 ^ k)"
      proof
        assume "\<exists>k. n = 2 ^ k"
        then obtain k where k: "n = 2 ^ k" ..
        with \<open>n \<noteq> 1\<close> have "k \<noteq> 0" by (cases k) simp_all
        with k have "even n" by simp
        with False show False by simp
      qed
      ultimately show ?thesis by simp
    qed
  qed
qed

lemma isPowerOf2_pos:
  assumes "0 < v" and "v < 2 ^ 32"
  shows "isPowerOf2 v \<longleftrightarrow> (\<exists>k::nat. v = 2 ^ k)"
proof -
  define n where "n = nat v"
  have v: "v = int n" and v1: "v - 1 = int (n - 1)" and n0: "0 < n"
    using assms(1) by (simp_all add: n_def)
  have x: "v AND (v - 1) = int (n AND (n - 1))"
    using v v1 by (metis of_nat_and_eq)
  have lo: "0 \<le> v AND (v - 1)" using assms(1) by simp
  have hi: "v AND (v - 1) < 2 ^ 32" using assms by simp
  have "isPowerOf2 v \<longleftrightarrow> (word_of_int (v AND (v - 1)) :: 32 word) = 0"
    by (simp add: isPowerOf2_def of_int_and_eq)
  also have "\<dots> \<longleftrightarrow> (2 ^ 32 :: int) dvd (v AND (v - 1))"
    by (simp add: word_of_int_eq_0_iff)
  also have "\<dots> \<longleftrightarrow> v AND (v - 1) = 0"
  proof (cases "v AND (v - 1) = 0")
    case True
    then show ?thesis by simp
  next
    case False
    with lo have "0 < v AND (v - 1)" by linarith
    then have "\<not> (2 ^ 32 :: int) dvd (v AND (v - 1))"
      using hi by (rule zdvd_not_zless)
    with False show ?thesis by simp
  qed
  also have "\<dots> \<longleftrightarrow> n AND (n - 1) = 0"
    unfolding x by simp
  also have "\<dots> \<longleftrightarrow> (\<exists>k. n = 2 ^ k)"
    by (rule and_pred_nat [OF n0])
  also have "\<dots> \<longleftrightarrow> (\<exists>k::nat. v = 2 ^ k)"
  proof
    assume "\<exists>k. n = 2 ^ k"
    then obtain k where "n = 2 ^ k" ..
    then have "v = 2 ^ k" unfolding v by simp
    then show "\<exists>k::nat. v = 2 ^ k" ..
  next
    assume "\<exists>k::nat. v = 2 ^ k"
    then obtain k :: nat where "v = 2 ^ k" ..
    then have "n = 2 ^ k" unfolding n_def by (simp add: nat_power_eq)
    then show "\<exists>k. n = 2 ^ k" ..
  qed
  finally show ?thesis .
qed

lemma isPowerOf2_zero: "isPowerOf2 0"
  by (simp add: isPowerOf2_def)

lemma isPowerOf2_iff:
  assumes "0 \<le> v" and "v < 2 ^ 32"
  shows "isPowerOf2 v \<longleftrightarrow> v = 0 \<or> (\<exists>k::nat. v = 2 ^ k)"
proof (cases "v = 0")
  case True
  then show ?thesis by (simp add: isPowerOf2_zero)
next
  case False
  with assms(1) have "0 < v" by simp
  then show ?thesis using isPowerOf2_pos [OF _ assms(2)] False by simp
qed

subsection \<open>The image arriving\<close>

lemma onload_calls:
  "calls (onload tex img g)
     = calls g @
       (if isPowerOf2 (width img) \<and> isPowerOf2 (height img)
        then [BindTexture tex, TexImage2D (ImageSource img), GenerateMipmap]
        else [BindTexture tex, TexImage2D (ImageSource img),
              TexParameteri TEXTURE_WRAP_S CLAMP_TO_EDGE,
              TexParameteri TEXTURE_WRAP_T CLAMP_TO_EDGE,
              TexParameteri TEXTURE_MIN_FILTER LINEAR])"
  by (simp add: onload_def platform_defs Let_def split: option.splits)

lemma onload_object:
  assumes "textures g tex = Some obj"
  shows "textures (onload tex img g) tex
     = Some (if isPowerOf2 (width img) \<and> isPowerOf2 (height img)
             then obj\<lparr>level0 := Some (ImageSource img), mipmapped := True\<rparr>
             else obj\<lparr>level0 := Some (ImageSource img), mipmapped := False,
                      wrap_s := CLAMP_TO_EDGE, wrap_t := CLAMP_TO_EDGE, min_filter := LINEAR\<rparr>)"
  using assms by (simp add: onload_def platform_defs Let_def)

text \<open>
  For an image with positive dimensions (below \<open>2 ^ 32\<close>, the range of the DOM's
  \<open>unsigned long\<close>) the handler does what the test's name says: mipmaps exactly when both
  dimensions are powers of two, with the wrap modes and the filter left alone; clamping on
  both axes, the linear filter and no mipmaps otherwise.
\<close>

lemma onload_positive_dimensions:
  assumes "0 < width img" and "width img < 2 ^ 32" and "0 < height img" and "height img < 2 ^ 32"
    and "textures g tex = Some obj"
  shows "(\<exists>j k :: nat. width img = 2 ^ j \<and> height img = 2 ^ k) \<Longrightarrow>
           calls (onload tex img g)
             = calls g @ [BindTexture tex, TexImage2D (ImageSource img), GenerateMipmap]
           \<and> textures (onload tex img g) tex
             = Some (obj\<lparr>level0 := Some (ImageSource img), mipmapped := True\<rparr>)"
    and "\<not> (\<exists>j k :: nat. width img = 2 ^ j \<and> height img = 2 ^ k) \<Longrightarrow>
           calls (onload tex img g)
             = calls g @ [BindTexture tex, TexImage2D (ImageSource img),
                          TexParameteri TEXTURE_WRAP_S CLAMP_TO_EDGE,
                          TexParameteri TEXTURE_WRAP_T CLAMP_TO_EDGE,
                          TexParameteri TEXTURE_MIN_FILTER LINEAR]
           \<and> textures (onload tex img g) tex
             = Some (obj\<lparr>level0 := Some (ImageSource img), mipmapped := False,
                         wrap_s := CLAMP_TO_EDGE, wrap_t := CLAMP_TO_EDGE,
                         min_filter := LINEAR\<rparr>)"
proof -
  have p: "isPowerOf2 (width img) \<and> isPowerOf2 (height img)
      \<longleftrightarrow> (\<exists>j k :: nat. width img = 2 ^ j \<and> height img = 2 ^ k)"
    using isPowerOf2_pos [OF assms(1,2)] isPowerOf2_pos [OF assms(3,4)] by blast
  show "(\<exists>j k :: nat. width img = 2 ^ j \<and> height img = 2 ^ k) \<Longrightarrow>
           calls (onload tex img g)
             = calls g @ [BindTexture tex, TexImage2D (ImageSource img), GenerateMipmap]
           \<and> textures (onload tex img g) tex
             = Some (obj\<lparr>level0 := Some (ImageSource img), mipmapped := True\<rparr>)"
    using p onload_calls [of tex img g] onload_object [OF assms(5), of img] by simp
  show "\<not> (\<exists>j k :: nat. width img = 2 ^ j \<and> height img = 2 ^ k) \<Longrightarrow>
           calls (onload tex img g)
             = calls g @ [BindTexture tex, TexImage2D (ImageSource img),
                          TexParameteri TEXTURE_WRAP_S CLAMP_TO_EDGE,
                          TexParameteri TEXTURE_WRAP_T CLAMP_TO_EDGE,
                          TexParameteri TEXTURE_MIN_FILTER LINEAR]
           \<and> textures (onload tex img g) tex
             = Some (obj\<lparr>level0 := Some (ImageSource img), mipmapped := False,
                         wrap_s := CLAMP_TO_EDGE, wrap_t := CLAMP_TO_EDGE,
                         min_filter := LINEAR\<rparr>)"
    using p onload_calls [of tex img g] onload_object [OF assms(5), of img] by simp
qed

text \<open>
  Claim C6. Zero is not a power of two, and \<open>isPowerOf2\<close> answers true for it. An image
  that loads with width or height 0 therefore takes the mipmap branch: \<open>generateMipmap\<close> is
  called and no wrap mode or filter is set.
\<close>

theorem zero_dimension_generates_mipmap:
  "isPowerOf2 0
   \<and> (\<forall>k::nat. (0::int) \<noteq> 2 ^ k)
   \<and> calls (onload tex (sizeless url) g)
       = calls g @ [BindTexture tex, TexImage2D (ImageSource (sizeless url)), GenerateMipmap]
   \<and> calls (onload tex \<lparr>src = url, width = 0, height = 256\<rparr> g)
       = calls g @ [BindTexture tex,
                    TexImage2D (ImageSource \<lparr>src = url, width = 0, height = 256\<rparr>),
                    GenerateMipmap]"
  by (simp add: onload_calls sizeless_def isPowerOf2_def)

subsection \<open>The placeholder\<close>

lemma has_image_log [simp]: "has_image tex (log c g) = has_image tex g"
  by (simp add: has_image_def log_def)

lemma loadTexture_result:
  "calls (gl (snd (loadTexture url s)))
     = calls (gl s) @ [CreateTexture, BindTexture (fresh (gl s)),
                       TexImage2D (Pixels 1 1 [0, 0, 255, 255]), SetImageSrc url]"
  "fst (loadTexture url s) = fresh (gl s)"
  "textures (gl (snd (loadTexture url s))) (fresh (gl s))
     = Some \<lparr>level0 = Some (Pixels 1 1 [0, 0, 255, 255]), wrap_s = REPEAT, wrap_t = REPEAT,
             min_filter = NEAREST_MIPMAP_LINEAR, mipmapped = False\<rparr>"
  "loading (snd (loadTexture url s)) = Some (fresh (gl s))"
  "raf (snd (loadTexture url s)) = raf s"
  by (simp_all add: loadTexture_def platform_defs Let_def)

lemma deliver_keeps_image:
  assumes "has_image tex (gl s)" and "loading s = None \<or> loading s = Some tex"
  shows "has_image tex (gl (deliver ev s))"
    and "loading (deliver ev s) = None \<or> loading (deliver ev s) = Some tex"
proof -
  obtain obj where obj: "textures (gl s) tex = Some obj" and l0: "level0 obj \<noteq> None"
    using assms(1) by (auto simp: has_image_def split: option.splits)
  show "has_image tex (gl (deliver ev s))"
  proof (cases ev)
    case (Frame now)
    then show ?thesis
      using assms(1)
      by (cases "raf s")
         (auto simp: render_def Let_def clear_def drawScene_def has_image_def log_def)
  next
    case (Load img)
    then show ?thesis
      using assms onload_object [OF obj, of img]
      by (cases "loading s") (auto simp: has_image_def)
  qed (use assms(1) in \<open>simp_all add: mousedown_def mouseup_def mousemove_def contextmenu_def Let_def\<close>)
  show "loading (deliver ev s) = None \<or> loading (deliver ev s) = Some tex"
    using assms(2)
    by (cases ev; cases "raf s"; cases "loading s")
       (auto simp: mousedown_def mouseup_def mousemove_def contextmenu_def render_def Let_def)
qed

lemma run_keeps_image:
  assumes "has_image tex (gl s)" and "loading s = None \<or> loading s = Some tex"
  shows "has_image tex (gl (run evs s))"
  using assms
proof (induction evs arbitrary: s)
  case Nil
  then show ?case by simp
next
  case (Cons ev evs)
  show ?case
    using Cons.IH [OF deliver_keeps_image [OF Cons.prems, of ev]] by simp
qed

lemma loadTexture_image:
  "has_image (fst (loadTexture url s)) (gl (snd (loadTexture url s)))"
  "loading (snd (loadTexture url s)) = Some (fst (loadTexture url s))"
  by (simp_all add: has_image_def loadTexture_result)

lemma main_registers_with_image:
  assumes "raf (snd (main e page0)) = Some (programInfo, tex)"
  shows "has_image tex (gl (snd (main e page0)))" and "loading (snd (main e page0)) = Some tex"
  using assms
  by (auto simp: main_def Let_def split_beta loadTexture_image pixelStorei_def page0_def
      split: if_splits prod.splits sum.splits)

text \<open>
  Claim C9. \<open>loadTexture\<close> uploads one pixel, the opaque \<open>[0, 0, 255, 255]\<close>, as a 1 by 1
  image into the texture it has just created and bound, before it starts the image load
  and returns. From then on the texture holds a level-0 image after every sequence of
  events, with no frame yet or many, with the image loaded or never: first the pixel, then
  the image. The same holds for the texture that \<open>render\<close> draws with whenever \<open>main\<close> has
  registered \<open>render\<close>.
\<close>

theorem placeholder_always_present:
  "calls (gl (snd (loadTexture url s)))
     = calls (gl s) @ [CreateTexture, BindTexture (fst (loadTexture url s)),
                       TexImage2D (Pixels 1 1 [0, 0, 255, 255]), SetImageSrc url]
   \<and> map_option level0 (textures (gl (snd (loadTexture url s))) (fst (loadTexture url s)))
       = Some (Some (Pixels 1 1 [0, 0, 255, 255]))
   \<and> (\<forall>evs. has_image (fst (loadTexture url s)) (gl (run evs (snd (loadTexture url s)))))
   \<and> (\<forall>evs. case raf (snd (main e page0)) of
               None \<Rightarrow> True
             | Some (programInfo, tex) \<Rightarrow> has_image tex (gl (run evs (snd (main e page0)))))"
proof -
  have now: "has_image (fresh (gl s)) (gl (snd (loadTexture url s)))"
    by (simp add: has_image_def loadTexture_result)
  have later: "has_image (fresh (gl s)) (gl (run evs (snd (loadTexture url s))))" for evs
    by (rule run_keeps_image [OF now]) (simp add: loadTexture_result)
  have started: "case raf (snd (main e page0)) of
               None \<Rightarrow> True
             | Some (programInfo, tex) \<Rightarrow> has_image tex (gl (run evs (snd (main e page0))))" for evs
  proof (cases "raf (snd (main e page0))")
    case None
    then show ?thesis by simp
  next
    case (Some c)
    obtain programInfo tex where c: "c = (programInfo, tex)" by (cases c)
    note m = main_registers_with_image [OF Some [unfolded c]]
    have "has_image tex (gl (run evs (snd (main e page0))))"
      by (rule run_keeps_image [OF m(1)]) (simp add: m(2))
    then show ?thesis using Some c by simp
  qed
  show ?thesis using later started by (simp add: loadTexture_result)
qed

text \<open>
  The successful start-up: the texture has an image before any event, and after a frame,
  the image's arrival and another frame.
\<close>

theorem placeholder_always_present_witness:
  "raf started \<noteq> None
   \<and> has_image 3 (gl (run [] started))
   \<and> has_image 3 (gl (run [Frame 16, Load cube_png, Frame 33] started))"
proof -
  note t = placeholder_always_present [of "[]" page0 env_ok]
  have a: "has_image 3 (gl (run evs started))" for evs
    using t raf_started by (simp add: started_def del: run.simps)
  show ?thesis using a raf_started by (simp del: run.simps)
qed

end
